theory Spec2Isabelle
  imports Complex_Main "HOL-Library.List_Lexorder" "HOL-Library.Char_ord" "HOL-Library.Multiset"
begin

section \<open>Strings of the host language\<close>

text \<open>
  Keys are JavaScript strings. They are modelled as \<^typ>\<open>string\<close>, one \<^typ>\<open>char\<close> per
  code unit, so the model covers the strings whose code units are below 256. The
  relational operators \<^verbatim>\<open>a > b\<close> and \<^verbatim>\<open>a < b\<close> of the source compare strings code unit by
  code unit, a proper prefix being smaller: this is the lexicographic order on
  \<^typ>\<open>char list\<close>.

  \<^verbatim>\<open>String.prototype.toLowerCase\<close> on such a string maps the letters \<open>A\<close> to \<open>Z\<close> and the
  capital letters of the range \<open>0xC0\<close> to \<open>0xDE\<close> (all of it but the multiplication sign
  \<open>0xD7\<close>) to the code unit 32 above, and leaves every other code unit as it is.
\<close>

definition upper_letters :: "char list" where
  "upper_letters =
     ''ABCDEFGHIJKLMNOPQRSTUVWXYZ'' @
     [
        CHR 0xC0, CHR 0xC1, CHR 0xC2, CHR 0xC3, CHR 0xC4, CHR 0xC5, CHR 0xC6, CHR 0xC7,
        CHR 0xC8, CHR 0xC9, CHR 0xCA, CHR 0xCB, CHR 0xCC, CHR 0xCD, CHR 0xCE, CHR 0xCF,
        CHR 0xD0, CHR 0xD1, CHR 0xD2, CHR 0xD3, CHR 0xD4, CHR 0xD5, CHR 0xD6, CHR 0xD8,
        CHR 0xD9, CHR 0xDA, CHR 0xDB, CHR 0xDC, CHR 0xDD, CHR 0xDE]"

definition lower_letters :: "char list" where
  "lower_letters =
     ''abcdefghijklmnopqrstuvwxyz'' @
     [
        CHR 0xE0, CHR 0xE1, CHR 0xE2, CHR 0xE3, CHR 0xE4, CHR 0xE5, CHR 0xE6, CHR 0xE7,
        CHR 0xE8, CHR 0xE9, CHR 0xEA, CHR 0xEB, CHR 0xEC, CHR 0xED, CHR 0xEE, CHR 0xEF,
        CHR 0xF0, CHR 0xF1, CHR 0xF2, CHR 0xF3, CHR 0xF4, CHR 0xF5, CHR 0xF6, CHR 0xF8,
        CHR 0xF9, CHR 0xFA, CHR 0xFB, CHR 0xFC, CHR 0xFD, CHR 0xFE]"

definition toLowerCase_char :: "char \<Rightarrow> char" where
  "toLowerCase_char c =
     (case map_of (zip upper_letters lower_letters) c of
        Some l \<Rightarrow> l
      | None \<Rightarrow> c)"

definition toLowerCase :: "string \<Rightarrow> string" where
  "toLowerCase s = map toLowerCase_char s"

definition is_digit :: "char \<Rightarrow> bool" where
  "is_digit c = (c \<in> set ''0123456789'')"

definition digit_value :: "char \<Rightarrow> nat" where
  "digit_value c =
     (case map_of (zip ''0123456789'' [0, 1, 2, 3, 4, 5, 6, 7, 8, 9]) c of
        Some d \<Rightarrow> d
      | None \<Rightarrow> 0)"

text \<open>
  \<^verbatim>\<open>parseInt(raw, 10)\<close> is only ever applied to a non-empty run of decimal digits (the
  capture group of \<^verbatim>\<open>/^(\d+)/u\<close>). The result is modelled as the exact integer; the
  host rounds it to a double, which is the same number below \<open>2^53\<close>.
\<close>

definition parseInt :: "string \<Rightarrow> int" where
  "parseInt raw = int (foldl (\<lambda>acc c. 10 * acc + digit_value c) 0 raw)"

section \<open>Comparator primitives and modifiers (sort.ts, lines 12--103)\<close>

type_synonym comparator = "string \<Rightarrow> string \<Rightarrow> int"

definition lexicalSort :: comparator where
  "lexicalSort a b = (if b < a then 1 else if a < b then -1 else 0)"

text \<open>
  \<^verbatim>\<open>a.match(integerPrefixRegex)\<close> with \<^verbatim>\<open>integerPrefixRegex = /^(\d+)/u\<close>: the longest
  run of decimal digits at the start of the string when there is at least one digit
  there (the capture group), and \<^verbatim>\<open>null\<close> otherwise.
\<close>

definition match_integerPrefixRegex :: "string \<Rightarrow> string option" where
  "match_integerPrefixRegex a =
     (let run = takeWhile is_digit a in if run = [] then None else Some run)"

definition numericSort :: comparator where
  "numericSort a b =
     (case (match_integerPrefixRegex a, match_integerPrefixRegex b) of
        (Some rawAPrefix, Some rawBPrefix) \<Rightarrow>
          (let aPrefix = parseInt rawAPrefix;
               bPrefix = parseInt rawBPrefix;
               difference = aPrefix - bPrefix
           in if difference \<noteq> 0 then difference
              else (if b < a then 1 else -1))
      | _ \<Rightarrow> (if b < a then 1 else -1))"

definition reverseSort :: "comparator \<Rightarrow> comparator" where
  "reverseSort sortFunction a b = -1 * sortFunction a b"

text \<open>
  \<^verbatim>\<open>x || y\<close> on numbers is \<^verbatim>\<open>x\<close> unless \<^verbatim>\<open>x\<close> is zero (or not a number, which an
  integer result never is).
\<close>

definition caseInsensitiveSort :: "comparator \<Rightarrow> comparator" where
  "caseInsensitiveSort sortFunction a b =
     (let folded = sortFunction (toLowerCase a) (toLowerCase b)
      in if folded \<noteq> 0 then folded else sortFunction a b)"

definition noneSort :: comparator where
  "noneSort a b = 0"

text \<open>
  The registry \<^verbatim>\<open>categorySortFunctions\<close>, as a lookup by own property name; \<open>None\<close> is
  \<^verbatim>\<open>undefined\<close>. (The names that a JavaScript object inherits, such as
  \<^verbatim>\<open>constructor\<close>, are outside the model.)
\<close>

definition categorySortFunctions :: "string \<Rightarrow> comparator option" where
  "categorySortFunctions name =
     map_of
       [(''caseInsensitiveLexical'', caseInsensitiveSort lexicalSort),
        (''caseInsensitiveNumeric'', caseInsensitiveSort numericSort),
        (''caseInsensitiveReverseLexical'', caseInsensitiveSort (reverseSort lexicalSort)),
        (''caseInsensitiveReverseNumeric'', caseInsensitiveSort (reverseSort numericSort)),
        (''lexical'', lexicalSort),
        (''numeric'', numericSort),
        (''reverseLexical'', reverseSort lexicalSort),
        (''reverseNumeric'', reverseSort numericSort),
        (''none'', noneSort)]
       name"

section \<open>Array.prototype.sort\<close>

text \<open>
  The engine sorts with the host's \<^verbatim>\<open>Array.prototype.sort\<close>. ECMAScript fixes its
  result only for a comparator that is a consistent order on the elements: the stable
  sort. For the other comparators the order is whatever the runtime's algorithm
  produces. Prettier runs on Node, whose sort (V8) works on an array of fewer than 64
  elements as follows: it finds the run at the start of the array, comparing each
  element with its predecessor as \<^verbatim>\<open>comparefn(later, earlier)\<close> (a result below zero
  at the first pair makes the run a strictly descending one, which is then reversed in
  place), and inserts every remaining element into the sorted prefix by binary search,
  calling \<^verbatim>\<open>comparefn(pivot, prefix[mid])\<close>. That algorithm is modelled here. On longer
  arrays V8 merges several runs; the result is the same whenever the comparator is
  consistent.
\<close>

fun countRun :: "('a \<Rightarrow> 'a \<Rightarrow> int) \<Rightarrow> bool \<Rightarrow> 'a \<Rightarrow> 'a list \<Rightarrow> nat" where
  "countRun cmp isDescending previousElement [] = 0"
| "countRun cmp isDescending previousElement (currentElement # rest) =
     (let order = cmp currentElement previousElement
      in if isDescending then
           (if order \<ge> 0 then 0 else Suc (countRun cmp isDescending currentElement rest))
         else
           (if order < 0 then 0 else Suc (countRun cmp isDescending currentElement rest)))"

function binarySearch :: "('a \<Rightarrow> 'a \<Rightarrow> int) \<Rightarrow> 'a \<Rightarrow> 'a list \<Rightarrow> nat \<Rightarrow> nat \<Rightarrow> nat" where
  "binarySearch cmp pivot work left right =
     (if left < right then
        (let mid = left + (right - left) div 2;
             order = cmp pivot (work ! mid)
         in if order < 0 then binarySearch cmp pivot work left mid
            else binarySearch cmp pivot work (mid + 1) right)
      else left)"
  by pat_completeness auto
termination
  by (relation "measure (\<lambda>(cmp, pivot, work, left, right). right - left)") auto

declare binarySearch.simps [simp del]

fun binaryInsertionSort :: "('a \<Rightarrow> 'a \<Rightarrow> int) \<Rightarrow> 'a list \<Rightarrow> 'a list \<Rightarrow> 'a list" where
  "binaryInsertionSort cmp work [] = work"
| "binaryInsertionSort cmp work (pivot # rest) =
     (let left = binarySearch cmp pivot work 0 (length work)
      in binaryInsertionSort cmp (take left work @ pivot # drop left work) rest)"

definition array_sort :: "('a \<Rightarrow> 'a \<Rightarrow> int) \<Rightarrow> 'a list \<Rightarrow> 'a list" where
  "array_sort cmp xs =
     (case xs of
        [] \<Rightarrow> []
      | [x] \<Rightarrow> [x]
      | elementHigh # elementLow # rest \<Rightarrow>
          (let isDescending = (cmp elementLow elementHigh < 0);
               runLength = 2 + countRun cmp isDescending elementLow rest;
               run = take runLength xs
           in binaryInsertionSort cmp (if isDescending then rev run else run)
                (drop runLength xs)))"

section \<open>Values of the host language\<close>

text \<open>
  A JSON value at run time. A number is modelled as the exact rational its literal
  denotes: the host rounds it to the nearest double, and to infinity beyond the range of
  the doubles; the engine never computes with the numbers of a document, it only passes
  them on. An object is the list of its own properties in the order in which
  \<^verbatim>\<open>Object.keys\<close> and \<^verbatim>\<open>JSON.stringify\<close> enumerate them.
\<close>

datatype jsval =
    JNull
  | JBool bool
  | JNum rat
  | JStr string
  | JArr "jsval list"
  | JObj "(string \<times> jsval) list"

text \<open>
  What a \<^verbatim>\<open>throw\<close> raises, as a value: the host's \<^verbatim>\<open>SyntaxError\<close> and \<^verbatim>\<open>TypeError\<close>,
  and one constructor for each \<^verbatim>\<open>new Error(...)\<close> of sort.ts, named after its message.
  \<open>Outside_model\<close> is not an exception of the program: it marks an input that needs a
  code unit above 255 or a regular expression beyond the ones modelled below.
\<close>

datatype error =
    SyntaxError
  | TypeError
  | Invalid_jsonRecursiveSort_option
  | Invalid_jsonSortOrder_option
  | Failed_to_parse_sort_order_option_as_JSON
  | Invalid_custom_sort_order
  | Invalid_custom_sort_entry
  | Property_type_not_supported
  | Object_property_key_type_not_supported
  | Unreachable_SpreadElement
  | Outside_model

text \<open>\<^verbatim>\<open>typeof v === 'object' && v !== null\<close>: arrays and objects.\<close>

fun is_object :: "jsval \<Rightarrow> bool" where
  "is_object (JArr xs) = True"
| "is_object (JObj ps) = True"
| "is_object v = False"

fun is_JObj :: "jsval \<Rightarrow> bool" where
  "is_JObj (JObj ps) = True"
| "is_JObj v = False"

definition digits_value :: "string \<Rightarrow> nat" where
  "digits_value ds = foldl (\<lambda>acc c. 10 * acc + digit_value c) 0 ds"

text \<open>
  Property order. The host enumerates the own properties of an ordinary object with the
  array indices first, in ascending numeric order, and the other string keys after
  them, in the order in which they were created. An array index is the canonical
  decimal form of an integer below \<open>2^32 - 1\<close>.
\<close>

definition is_array_index :: "string \<Rightarrow> bool" where
  "is_array_index k =
     (if k = [] then False
      else if take 1 k = ''0'' then k = ''0''
      else list_all is_digit k \<and> int (digits_value k) < 4294967295)"

fun insert_index :: "string \<Rightarrow> jsval \<Rightarrow> (string \<times> jsval) list \<Rightarrow> (string \<times> jsval) list" where
  "insert_index k v [] = [(k, v)]"
| "insert_index k v (p # ps) =
     (if is_array_index (fst p) \<and> digits_value (fst p) < digits_value k
      then p # insert_index k v ps
      else (k, v) # p # ps)"

text \<open>
  Creating or overwriting the own data property \<open>k\<close>: an existing property keeps its
  place and takes the new value; a new one is placed by the order above.
\<close>

definition define_prop :: "string \<Rightarrow> jsval \<Rightarrow> (string \<times> jsval) list \<Rightarrow> (string \<times> jsval) list" where
  "define_prop k v ps =
     (if k \<in> fst ` set ps then map (\<lambda>p. if fst p = k then (k, v) else p) ps
      else if is_array_index k then insert_index k v ps
      else ps @ [(k, v)])"

text \<open>
  The assignment \<^verbatim>\<open>obj[key] = value\<close> on an object that was created as \<^verbatim>\<open>{}\<close>. The key
  \<^verbatim>\<open>__proto__\<close> is the accessor inherited from \<^verbatim>\<open>Object.prototype\<close>: assigning to it
  creates no own property.
\<close>

definition js_assign :: "string \<Rightarrow> jsval \<Rightarrow> (string \<times> jsval) list \<Rightarrow> (string \<times> jsval) list" where
  "js_assign key v ps = (if key = ''__proto__'' then ps else define_prop key v ps)"

section \<open>JSON.parse\<close>

text \<open>
  The host's \<^verbatim>\<open>JSON.parse\<close>, on a text of code units below 256: a lexer for the JSON
  tokens and a stack machine for the grammar. Each member of an object literal is
  stored with the host's \<^verbatim>\<open>CreateDataProperty\<close>, in source order, so that a name that
  occurs again overwrites the value stored for it before.
\<close>

datatype token = LBrace | RBrace | LBracket | RBracket | Colon | Comma | Prim jsval

definition is_json_ws :: "char \<Rightarrow> bool" where
  "is_json_ws c = (c \<in> set [CHR 0x20, CHR 0x09, CHR 0x0A, CHR 0x0D])"

definition hex_value :: "char \<Rightarrow> nat option" where
  "hex_value c =
     map_of (zip ''0123456789abcdefABCDEF''
               [0, 1, 2, 3, 4, 5, 6, 7, 8, 9, 10, 11, 12, 13, 14, 15, 10, 11, 12, 13, 14, 15]) c"

definition unicode_escape :: "char list \<Rightarrow> error + char" where
  "unicode_escape hs =
     (case map hex_value hs of
        [Some a, Some b, Some c, Some d] \<Rightarrow>
          (let n = ((a * 16 + b) * 16 + c) * 16 + d
           in if n < 256 then Inr (char_of n) else Inl Outside_model)
      | _ \<Rightarrow> Inl SyntaxError)"

definition simple_escape :: "char \<Rightarrow> char option" where
  "simple_escape e =
     map_of [(CHR 0x22, CHR 0x22), (CHR 0x5C, CHR 0x5C), (CHR ''/'', CHR ''/''),
             (CHR ''b'', CHR 0x08), (CHR ''f'', CHR 0x0C), (CHR ''n'', CHR 0x0A),
             (CHR ''r'', CHR 0x0D), (CHR ''t'', CHR 0x09)] e"

text \<open>The characters of a string literal after its opening quote, and the text after it.\<close>

fun scan_string :: "string \<Rightarrow> string \<Rightarrow> error + (string \<times> string)" where
  "scan_string acc [] = Inl SyntaxError"
| "scan_string acc (c # cs) =
     (if c = CHR 0x22 then Inr (rev acc, cs)
      else if c = CHR 0x5C then
        (case cs of
           [] \<Rightarrow> Inl SyntaxError
         | e # cs' \<Rightarrow>
             (if e = CHR ''u'' then
                (case cs' of
                   h1 # h2 # h3 # h4 # cs'' \<Rightarrow>
                     (case unicode_escape [h1, h2, h3, h4] of
                        Inl err \<Rightarrow> Inl err
                      | Inr ch \<Rightarrow> scan_string (ch # acc) cs'')
                 | _ \<Rightarrow> Inl SyntaxError)
              else
                (case simple_escape e of
                   None \<Rightarrow> Inl SyntaxError
                 | Some ch \<Rightarrow> scan_string (ch # acc) cs')))
      else if (of_char c :: nat) < 32 then Inl SyntaxError
      else scan_string (c # acc) cs)"

text \<open>
  A number literal at the start of the text:
  \<^verbatim>\<open>-? (0 | [1-9][0-9]*) (. [0-9]+)? ([eE] [+-]? [0-9]+)?\<close>. Each part gives what it
  read and the text after it; \<open>None\<close> is a malformed part.
\<close>

definition scan_int :: "string \<Rightarrow> (string \<times> string) option" where
  "scan_int cs =
     (if take 1 cs = ''0'' then Some (''0'', drop 1 cs)
      else if takeWhile is_digit cs = [] then None
      else Some (takeWhile is_digit cs, dropWhile is_digit cs))"

definition scan_fraction :: "string \<Rightarrow> (string \<times> string) option" where
  "scan_fraction cs =
     (if take 1 cs = ''.'' then
        (if takeWhile is_digit (drop 1 cs) = [] then None
         else Some (takeWhile is_digit (drop 1 cs), dropWhile is_digit (drop 1 cs)))
      else Some ([], cs))"

definition scan_exponent :: "string \<Rightarrow> (int \<times> string) option" where
  "scan_exponent cs =
     (if take 1 cs = ''e'' \<or> take 1 cs = ''E'' then
        (let signed = (take 1 (drop 1 cs) = ''-'' \<or> take 1 (drop 1 cs) = ''+'');
             ds = (if signed then drop 2 cs else drop 1 cs)
         in if takeWhile is_digit ds = [] then None
            else Some (if take 1 (drop 1 cs) = ''-''
                       then - int (digits_value (takeWhile is_digit ds))
                       else int (digits_value (takeWhile is_digit ds)),
                       dropWhile is_digit ds))
      else Some (0, cs))"

definition number_value :: "bool \<Rightarrow> string \<Rightarrow> string \<Rightarrow> int \<Rightarrow> rat" where
  "number_value negative intDigits fracDigits exponent =
     (let mantissa = (of_nat (digits_value (intDigits @ fracDigits)) / 10 ^ length fracDigits :: rat);
          magnitude = (if exponent < 0 then mantissa / 10 ^ nat (- exponent)
                       else mantissa * 10 ^ nat exponent)
      in if negative then - magnitude else magnitude)"

definition scan_number :: "string \<Rightarrow> error + (rat \<times> string)" where
  "scan_number cs =
     (case scan_int (if take 1 cs = ''-'' then drop 1 cs else cs) of
        None \<Rightarrow> Inl SyntaxError
      | Some (intDigits, cs2) \<Rightarrow>
          (case scan_fraction cs2 of
             None \<Rightarrow> Inl SyntaxError
           | Some (fracDigits, cs3) \<Rightarrow>
               (case scan_exponent cs3 of
                  None \<Rightarrow> Inl SyntaxError
                | Some (exponent, rest) \<Rightarrow>
                    Inr (number_value (take 1 cs = ''-'') intDigits fracDigits exponent, rest))))"

lemma scan_string_shorter:
  "scan_string acc cs = Inr (s, rest) \<Longrightarrow> length rest < length cs"
proof (induction acc cs rule: scan_string.induct)
  case (1 acc)
  then show ?case by simp
next
  case (2 acc c cs)
  show ?case
  proof (cases "c = CHR 0x22")
    case True
    with 2 show ?thesis by simp
  next
    case notq: False
    show ?thesis
    proof (cases "c = CHR 0x5C")
      case False
      with notq 2 show ?thesis by (simp split: if_splits)
    next
      case bs: True
      show ?thesis
      proof (cases cs)
        case Nil
        with bs notq 2 show ?thesis by simp
      next
        case (Cons e cs')
        show ?thesis
        proof (cases "e = CHR ''u''")
          case False
          with Cons bs notq 2 show ?thesis
            by (simp split: option.splits) fastforce
        next
          case True
          with Cons bs notq 2 show ?thesis
            by (simp split: list.splits sum.splits) fastforce
        qed
      qed
    qed
  qed
qed

lemma length_dropWhile_less:
  assumes "takeWhile P cs \<noteq> []"
  shows "length (dropWhile P cs) < length cs"
proof (cases cs)
  case Nil
  with assms show ?thesis by simp
next
  case (Cons a list)
  with assms have "P a" by (simp split: if_splits)
  with Cons show ?thesis
    using length_dropWhile_le [of P list] by simp
qed

lemma scan_int_shorter: "scan_int cs = Some (ds, rest) \<Longrightarrow> length rest < length cs"
  using length_dropWhile_less [of is_digit cs]
  by (cases cs) (auto simp: scan_int_def split: if_splits)

lemma scan_fraction_shorter: "scan_fraction cs = Some (ds, rest) \<Longrightarrow> length rest \<le> length cs"
  using length_dropWhile_le [of is_digit "drop 1 cs"]
  by (auto simp: scan_fraction_def split: if_splits)

lemma scan_exponent_shorter: "scan_exponent cs = Some (e, rest) \<Longrightarrow> length rest \<le> length cs"
  using length_dropWhile_le [of is_digit "drop 1 cs"] length_dropWhile_le [of is_digit "drop 2 cs"]
  by (auto simp: scan_exponent_def Let_def split: if_splits)

lemma scan_number_shorter:
  assumes "scan_number (c # cs) = Inr (n, rest)"
  shows "length rest \<le> length cs"
proof -
  from assms obtain ds cs2 fs cs3 e
    where 1: "scan_int (if take 1 (c # cs) = ''-'' then drop 1 (c # cs) else c # cs) = Some (ds, cs2)"
      and 2: "scan_fraction cs2 = Some (fs, cs3)"
      and 3: "scan_exponent cs3 = Some (e, rest)"
    by (auto simp: scan_number_def split: option.splits)
  from scan_int_shorter [OF 1] have "length cs2 \<le> length cs"
    by (simp split: if_splits)
  with scan_fraction_shorter [OF 2] scan_exponent_shorter [OF 3] show ?thesis
    by simp
qed

text \<open>The token that starts with the character \<open>c\<close>, and the text after the token.\<close>

definition next_token :: "char \<Rightarrow> string \<Rightarrow> error + (token \<times> string)" where
  "next_token c cs =
     (if c = CHR ''{'' then Inr (LBrace, cs)
      else if c = CHR ''}'' then Inr (RBrace, cs)
      else if c = CHR ''['' then Inr (LBracket, cs)
      else if c = CHR '']'' then Inr (RBracket, cs)
      else if c = CHR '':'' then Inr (Colon, cs)
      else if c = CHR '','' then Inr (Comma, cs)
      else if c = CHR 0x22 then
        (case scan_string [] cs of
           Inl e \<Rightarrow> Inl e
         | Inr (s, rest) \<Rightarrow> Inr (Prim (JStr s), rest))
      else if c = CHR ''-'' \<or> is_digit c then
        (case scan_number (c # cs) of
           Inl e \<Rightarrow> Inl e
         | Inr (n, rest) \<Rightarrow> Inr (Prim (JNum n), rest))
      else if take 4 (c # cs) = ''true'' then Inr (Prim (JBool True), drop 3 cs)
      else if take 5 (c # cs) = ''false'' then Inr (Prim (JBool False), drop 4 cs)
      else if take 4 (c # cs) = ''null'' then Inr (Prim JNull, drop 3 cs)
      else Inl SyntaxError)"

lemma next_token_string:
  "next_token (CHR 0x22) cs =
     (case scan_string [] cs of Inl e \<Rightarrow> Inl e | Inr (s, rest) \<Rightarrow> Inr (Prim (JStr s), rest))"
  by (simp add: next_token_def)

lemma next_token_number:
  assumes "c = CHR ''-'' \<or> is_digit c"
  shows "next_token c cs =
     (case scan_number (c # cs) of Inl e \<Rightarrow> Inl e | Inr (n, rest) \<Rightarrow> Inr (Prim (JNum n), rest))"
proof -
  from assms have "c \<noteq> CHR ''{''" "c \<noteq> CHR ''}''" "c \<noteq> CHR ''[''" "c \<noteq> CHR '']''"
    "c \<noteq> CHR '':''" "c \<noteq> CHR '',''" "c \<noteq> CHR 0x22"
    by (auto simp: is_digit_def)
  with assms show ?thesis
    unfolding next_token_def by (simp only: if_False if_True)
qed

lemma next_token_other:
  assumes "c \<noteq> CHR 0x22" and "\<not> (c = CHR ''-'' \<or> is_digit c)"
  shows "next_token c cs =
     (if c = CHR ''{'' then Inr (LBrace, cs)
      else if c = CHR ''}'' then Inr (RBrace, cs)
      else if c = CHR ''['' then Inr (LBracket, cs)
      else if c = CHR '']'' then Inr (RBracket, cs)
      else if c = CHR '':'' then Inr (Colon, cs)
      else if c = CHR '','' then Inr (Comma, cs)
      else if take 4 (c # cs) = ''true'' then Inr (Prim (JBool True), drop 3 cs)
      else if take 5 (c # cs) = ''false'' then Inr (Prim (JBool False), drop 4 cs)
      else if take 4 (c # cs) = ''null'' then Inr (Prim JNull, drop 3 cs)
      else Inl SyntaxError)"
  using assms unfolding next_token_def by (simp only: if_False)

lemma next_token_shorter:
  assumes "next_token c cs = Inr (t, rest)"
  shows "length rest \<le> length cs"
proof (cases "c = CHR 0x22")
  case True
  with assms obtain s where "scan_string [] cs = Inr (s, rest)"
    by (auto simp: next_token_string split: sum.splits)
  from scan_string_shorter [OF this] show ?thesis by simp
next
  case notq: False
  show ?thesis
  proof (cases "c = CHR ''-'' \<or> is_digit c")
    case True
    with assms obtain n where "scan_number (c # cs) = Inr (n, rest)"
      by (auto simp: next_token_number split: sum.splits)
    from scan_number_shorter [OF this] show ?thesis by simp
  next
    case False
    from assms have "rest = cs \<or> rest = drop 3 cs \<or> rest = drop 4 cs"
      unfolding next_token_other [OF notq False] by (auto split: if_splits)
    then show ?thesis by auto
  qed
qed

function lex :: "string \<Rightarrow> error + token list" where
  "lex [] = Inr []"
| "lex (c # cs) =
     (if is_json_ws c then lex cs
      else (case next_token c cs of
              Inl e \<Rightarrow> Inl e
            | Inr (t, rest) \<Rightarrow>
                (case lex rest of
                   Inl e \<Rightarrow> Inl e
                 | Inr ts \<Rightarrow> Inr (t # ts))))"
  by pat_completeness auto
termination
proof (relation "measure length", goal_cases)
  case (3 c cs tr t rest)
  then show ?case using next_token_shorter [of c cs t rest] by simp
qed simp_all

text \<open>
  The grammar, as a machine over the tokens. The stack holds the containers that are
  still open: an array with the elements read so far (latest first), an object with the
  properties stored so far, or such an object together with the member name whose value
  is being read. The mode says what may come next.
\<close>

datatype frame =
    FArr "jsval list"
  | FObj "(string \<times> jsval) list"
  | FKey "(string \<times> jsval) list" string

datatype mode = Val | ValOrEnd | KeyOrEnd | Key | Col | Sep | Fin jsval

definition complete :: "jsval \<Rightarrow> frame list \<Rightarrow> error + (mode \<times> frame list)" where
  "complete v st =
     (case st of
        [] \<Rightarrow> Inr (Fin v, [])
      | FArr es # st' \<Rightarrow> Inr (Sep, FArr (v # es) # st')
      | FKey ps k # st' \<Rightarrow> Inr (Sep, FObj (define_prop k v ps) # st')
      | FObj ps # st' \<Rightarrow> Inl SyntaxError)"

definition value_start :: "frame list \<Rightarrow> token \<Rightarrow> error + (mode \<times> frame list)" where
  "value_start st t =
     (case t of
        Prim v \<Rightarrow> complete v st
      | LBrace \<Rightarrow> Inr (KeyOrEnd, FObj [] # st)
      | LBracket \<Rightarrow> Inr (ValOrEnd, FArr [] # st)
      | _ \<Rightarrow> Inl SyntaxError)"

definition member_name :: "frame list \<Rightarrow> token \<Rightarrow> error + (mode \<times> frame list)" where
  "member_name st t =
     (case (st, t) of
        (FObj ps # st', Prim (JStr k)) \<Rightarrow> Inr (Col, FKey ps k # st')
      | _ \<Rightarrow> Inl SyntaxError)"

definition step :: "mode \<Rightarrow> frame list \<Rightarrow> token \<Rightarrow> error + (mode \<times> frame list)" where
  "step m st t =
     (case m of
        Val \<Rightarrow> value_start st t
      | ValOrEnd \<Rightarrow>
          (case (st, t) of
             (FArr es # st', RBracket) \<Rightarrow> complete (JArr (rev es)) st'
           | _ \<Rightarrow> value_start st t)
      | KeyOrEnd \<Rightarrow>
          (case (st, t) of
             (FObj ps # st', RBrace) \<Rightarrow> complete (JObj ps) st'
           | _ \<Rightarrow> member_name st t)
      | Key \<Rightarrow> member_name st t
      | Col \<Rightarrow> (case t of Colon \<Rightarrow> Inr (Val, st) | _ \<Rightarrow> Inl SyntaxError)
      | Sep \<Rightarrow>
          (case (st, t) of
             (FArr es # st', Comma) \<Rightarrow> Inr (Val, st)
           | (FArr es # st', RBracket) \<Rightarrow> complete (JArr (rev es)) st'
           | (FObj ps # st', Comma) \<Rightarrow> Inr (Key, st)
           | (FObj ps # st', RBrace) \<Rightarrow> complete (JObj ps) st'
           | _ \<Rightarrow> Inl SyntaxError)
      | Fin v \<Rightarrow> Inl SyntaxError)"

fun run :: "mode \<Rightarrow> frame list \<Rightarrow> token list \<Rightarrow> error + jsval" where
  "run m st [] = (case m of Fin v \<Rightarrow> Inr v | _ \<Rightarrow> Inl SyntaxError)"
| "run m st (t # ts) =
     (case step m st t of
        Inl e \<Rightarrow> Inl e
      | Inr (m', st') \<Rightarrow> run m' st' ts)"

definition JSON_parse :: "string \<Rightarrow> error + jsval" where
  "JSON_parse text = (case lex text of Inl e \<Rightarrow> Inl e | Inr ts \<Rightarrow> run Val [] ts)"

section \<open>The seen-set engine (part_001, lines 50--103)\<close>

text \<open>
  The first \<^verbatim>\<open>processJson\<close> of part_001 and its helpers; the second implementation in
  that file (lines 188--242) is the same program with the helpers as closures.

  \<^verbatim>\<open>Object.keys(obj).forEach(key => \<dots> obj[key] \<dots>)\<close> visits the own properties of
  \<^verbatim>\<open>obj\<close> in order, each with its value. For an object these are its properties, for an
  array the elements under the keys \<^verbatim>\<open>"0"\<close>, \<^verbatim>\<open>"1"\<close>, \<dots>, for a string its
  characters under such keys, for a number or a boolean nothing; for \<^verbatim>\<open>null\<close>,
  \<^verbatim>\<open>Object.keys\<close> throws a \<^verbatim>\<open>TypeError\<close>.
\<close>

function index_key :: "nat \<Rightarrow> string" where
  "index_key n =
     (if n < 10 then [''0123456789'' ! n]
      else index_key (n div 10) @ [''0123456789'' ! (n mod 10)])"
  by pat_completeness auto
termination
  by (relation "measure id") auto

declare index_key.simps [simp del]

record prettier_options =
  filepath :: "string option"
  jsonRecursiveSort :: bool
  jsonSortOrder :: "string option"
  jsonFilePattern :: "string option"

text \<open>
  What \<^verbatim>\<open>processJson\<close> returns: the text of \<^verbatim>\<open>JSON.stringify(value, null, 2)\<close>, given by
  the value that is printed, or a text as it is.
\<close>

datatype printed = Stringified jsval | Text string | Unmodelled

text \<open>
  \<^verbatim>\<open>deduplicateObject(obj, seen)\<close>. The set \<^verbatim>\<open>seen\<close> is one mutable object shared by all
  the calls; the model takes it and returns it updated.
\<close>

fun dedup_chars ::
  "nat \<Rightarrow> string \<Rightarrow> (string \<times> jsval) list \<Rightarrow> string set \<Rightarrow> (string \<times> jsval) list \<times> string set" where
  "dedup_chars i [] newObj seen = (newObj, seen)"
| "dedup_chars i (c # cs) newObj seen =
     (if index_key i \<in> seen then dedup_chars (Suc i) cs newObj seen
      else dedup_chars (Suc i) cs (js_assign (index_key i) (JStr [c]) newObj)
             (insert (index_key i) seen))"

fun deduplicateObject :: "jsval \<Rightarrow> string set \<Rightarrow> error + (jsval \<times> string set)"
  and dedup_props ::
    "(string \<times> jsval) list \<Rightarrow> (string \<times> jsval) list \<Rightarrow> string set
      \<Rightarrow> error + ((string \<times> jsval) list \<times> string set)"
  and dedup_elements ::
    "nat \<Rightarrow> jsval list \<Rightarrow> (string \<times> jsval) list \<Rightarrow> string set
      \<Rightarrow> error + ((string \<times> jsval) list \<times> string set)"
where
  "deduplicateObject JNull seen = Inl TypeError"
| "deduplicateObject (JBool b) seen = Inr (JObj [], seen)"
| "deduplicateObject (JNum n) seen = Inr (JObj [], seen)"
| "deduplicateObject (JStr s) seen =
     (case dedup_chars 0 s [] seen of (newObj, seen') \<Rightarrow> Inr (JObj newObj, seen'))"
| "deduplicateObject (JArr xs) seen =
     (case dedup_elements 0 xs [] seen of
        Inl e \<Rightarrow> Inl e
      | Inr (newObj, seen') \<Rightarrow> Inr (JObj newObj, seen'))"
| "deduplicateObject (JObj ps) seen =
     (case dedup_props ps [] seen of
        Inl e \<Rightarrow> Inl e
      | Inr (newObj, seen') \<Rightarrow> Inr (JObj newObj, seen'))"
| "dedup_props [] newObj seen = Inr (newObj, seen)"
| "dedup_props (p # rest) newObj seen =
     (if fst p \<in> seen then dedup_props rest newObj seen
      else if is_object (snd p) then
        (case deduplicateObject (snd p) (insert (fst p) seen) of
           Inl e \<Rightarrow> Inl e
         | Inr (value', seen') \<Rightarrow> dedup_props rest (js_assign (fst p) value' newObj) seen')
      else dedup_props rest (js_assign (fst p) (snd p) newObj) (insert (fst p) seen))"
| "dedup_elements i [] newObj seen = Inr (newObj, seen)"
| "dedup_elements i (x # rest) newObj seen =
     (if index_key i \<in> seen then dedup_elements (Suc i) rest newObj seen
      else if is_object x then
        (case deduplicateObject x (insert (index_key i) seen) of
           Inl e \<Rightarrow> Inl e
         | Inr (value', seen') \<Rightarrow>
             dedup_elements (Suc i) rest (js_assign (index_key i) value' newObj) seen')
      else dedup_elements (Suc i) rest (js_assign (index_key i) x newObj)
             (insert (index_key i) seen))"

text \<open>
  \<^verbatim>\<open>sortObject(obj, sortFunction)\<close>. The keys are sorted, and the result is filled key by
  key with \<^verbatim>\<open>result[key] = \<dots> obj[key] \<dots>\<close>; \<open>map_of ps key\<close> is \<^verbatim>\<open>obj[key]\<close> for an own
  key of the object with the properties \<open>ps\<close>.
\<close>

fun all_or_error :: "(error + 'a) list \<Rightarrow> error + 'a list" where
  "all_or_error [] = Inr []"
| "all_or_error (r # rs) =
     (case r of
        Inl e \<Rightarrow> Inl e
      | Inr x \<Rightarrow> (case all_or_error rs of Inl e \<Rightarrow> Inl e | Inr xs \<Rightarrow> Inr (x # xs)))"

lemma size_element_less: "x \<in> set xs \<Longrightarrow> size (x :: jsval) < Suc (size_list size xs)"
  by (induction xs) auto

lemma size_map_of_less:
  "map_of ps k = Some v \<Longrightarrow> size (v :: jsval) < Suc (size_list (size_prod (\<lambda>x. 0) size) ps)"
  by (induction ps) (auto split: if_splits)

function sortObject :: "comparator \<Rightarrow> jsval \<Rightarrow> error + jsval" where
  "sortObject sortFunction (JArr xs) =
     (case all_or_error
             (map (\<lambda>item. if is_object item then sortObject sortFunction item else Inr item) xs) of
        Inl e \<Rightarrow> Inl e
      | Inr items \<Rightarrow> Inr (JArr items))"
| "sortObject sortFunction JNull = Inl TypeError"
| "sortObject sortFunction (JBool b) = Inr (JObj [])"
| "sortObject sortFunction (JNum n) = Inr (JObj [])"
| "sortObject sortFunction (JStr s) =
     Inr (JObj (foldl (\<lambda>result key. js_assign key (JStr [s ! digits_value key]) result) []
                  (array_sort sortFunction (map index_key [0..<length s]))))"
| "sortObject sortFunction (JObj ps) =
     (case foldl
             (\<lambda>result key.
                case result of
                  Inl e \<Rightarrow> Inl e
                | Inr r \<Rightarrow>
                    (case map_of ps key of
                       None \<Rightarrow> Inr r
                     | Some v \<Rightarrow>
                         (if is_object v then
                            (case sortObject sortFunction v of
                               Inl e \<Rightarrow> Inl e
                             | Inr v' \<Rightarrow> Inr (js_assign key v' r))
                          else Inr (js_assign key v r))))
             (Inr []) (array_sort sortFunction (map fst ps)) of
        Inl e \<Rightarrow> Inl e
      | Inr result \<Rightarrow> Inr (JObj result))"
  by pat_completeness auto
termination
proof (relation "measure (\<lambda>(sortFunction, obj). size obj)", goal_cases)
  case 1
  then show ?case by simp
next
  case (2 sortFunction xs item)
  then show ?case using size_element_less [of item xs] by simp
next
  case (3 sortFunction ps result key r v)
  then show ?case using size_map_of_less [of ps key v] by simp
qed

definition createSortFunction :: "string option \<Rightarrow> comparator" where
  "createSortFunction sortOrder =
     (case sortOrder of
        None \<Rightarrow> lexicalSort
      | Some name \<Rightarrow>
          (if name = [] then lexicalSort
           else (case categorySortFunctions name of Some f \<Rightarrow> f | None \<Rightarrow> lexicalSort)))"

text \<open>
  The \<^verbatim>\<open>try\<close> block of \<^verbatim>\<open>processJson\<close> and its \<^verbatim>\<open>catch\<close>, which returns the text it was
  given.
\<close>

definition or_return :: "string \<Rightarrow> error + jsval \<Rightarrow> printed" where
  "or_return text r =
     (case r of
        Inr v \<Rightarrow> Stringified v
      | Inl Outside_model \<Rightarrow> Unmodelled
      | Inl e \<Rightarrow> Text text)"

definition processJson :: "string \<Rightarrow> prettier_options \<Rightarrow> printed" where
  "processJson text options =
     or_return text
       (case JSON_parse text of
          Inl e \<Rightarrow> Inl e
        | Inr json \<Rightarrow>
            (case deduplicateObject json {} of
               Inl e \<Rightarrow> Inl e
             | Inr (deduplicatedJson, seen) \<Rightarrow>
                 sortObject (createSortFunction (jsonSortOrder options)) deduplicatedJson))"

section \<open>The engine with one scope per object and a file pattern (part_001, lines 327--436)\<close>

subsection \<open>matchesFilePattern\<close>

text \<open>
  \<^verbatim>\<open>subject.replace(/pat/g, rep)\<close> for a pattern that matches the fixed text \<open>pat\<close>: every
  occurrence, found from the left and not overlapping, is replaced.
\<close>

function replace_all :: "string \<Rightarrow> string \<Rightarrow> string \<Rightarrow> string" where
  "replace_all pat rep [] = []"
| "replace_all pat rep (c # cs) =
     (if pat \<noteq> [] \<and> take (length pat) (c # cs) = pat
      then rep @ replace_all pat rep (drop (length pat) (c # cs))
      else c # replace_all pat rep cs)"
  by pat_completeness auto
termination
  by (relation "measure (\<lambda>(pat, rep, subject). length subject)") auto

definition regexPattern :: "string \<Rightarrow> string" where
  "regexPattern p =
     replace_all ''?'' ''.''
       (replace_all ''{{DOUBLE_STAR}}'' ''.*''
          (replace_all ''*'' ''[^/]*''
             (replace_all ''**'' ''{{DOUBLE_STAR}}''
                (replace_all ''.'' [CHR 0x5C, CHR ''.''] p))))"

fun split_comma :: "string \<Rightarrow> string list" where
  "split_comma [] = [[]]"
| "split_comma (c # cs) =
     (if c = CHR '','' then [] # split_comma cs
      else (case split_comma cs of
              [] \<Rightarrow> [[c]]
            | segment # segments \<Rightarrow> (c # segment) # segments))"

definition is_js_ws :: "char \<Rightarrow> bool" where
  "is_js_ws c = (c \<in> set [CHR 0x09, CHR 0x0A, CHR 0x0B, CHR 0x0C, CHR 0x0D, CHR 0x20, CHR 0xA0])"

definition trim :: "string \<Rightarrow> string" where
  "trim s = rev (dropWhile is_js_ws (rev (dropWhile is_js_ws s)))"

text \<open>
  \<^verbatim>\<open>new RegExp(regexPattern)\<close> and \<^verbatim>\<open>regex.test(filepath)\<close>, for the regular expressions
  that the replacements above produce from a pattern without further special
  characters: a literal character, \<^verbatim>\<open>\.\<close>, \<^verbatim>\<open>.\<close>, \<^verbatim>\<open>.*\<close> and \<^verbatim>\<open>[^/]*\<close>. The match may
  start anywhere in the path and need not reach its end. A text with another special
  character of the regular expression syntax is outside the model.
\<close>

datatype rx = Lit char | AnyChar | AnyStar | NonSlashStar

definition emit_rx :: "rx \<Rightarrow> error + rx list \<Rightarrow> error + rx list" where
  "emit_rx r rest = (case rest of Inl e \<Rightarrow> Inl e | Inr rs \<Rightarrow> Inr (r # rs))"

function compile_regex :: "string \<Rightarrow> error + rx list" where
  "compile_regex [] = Inr []"
| "compile_regex (c # cs) =
     (if take 5 (c # cs) = ''[^/]*'' then emit_rx NonSlashStar (compile_regex (drop 4 cs))
      else if take 2 (c # cs) = [CHR 0x5C, CHR ''.''] then
        emit_rx (Lit CHR ''.'') (compile_regex (drop 1 cs))
      else if take 2 (c # cs) = ''.*'' then emit_rx AnyStar (compile_regex (drop 1 cs))
      else if c = CHR ''.'' then emit_rx AnyChar (compile_regex cs)
      else if c \<in> set (CHR 0x5C # ''^$*+?()[]{}|'') then Inl Outside_model
      else emit_rx (Lit c) (compile_regex cs))"
  by pat_completeness auto
termination
  by (relation "measure length") auto

definition is_line_terminator :: "char \<Rightarrow> bool" where
  "is_line_terminator c = (c \<in> set [CHR 0x0A, CHR 0x0D])"

fun rx_match :: "rx list \<Rightarrow> string \<Rightarrow> bool" where
  "rx_match [] s = True"
| "rx_match (Lit c # rs) [] = False"
| "rx_match (Lit c # rs) (x # xs) = (x = c \<and> rx_match rs xs)"
| "rx_match (AnyChar # rs) [] = False"
| "rx_match (AnyChar # rs) (x # xs) = (\<not> is_line_terminator x \<and> rx_match rs xs)"
| "rx_match (AnyStar # rs) [] = rx_match rs []"
| "rx_match (AnyStar # rs) (x # xs) =
     (rx_match rs (x # xs) \<or> (\<not> is_line_terminator x \<and> rx_match (AnyStar # rs) xs))"
| "rx_match (NonSlashStar # rs) [] = rx_match rs []"
| "rx_match (NonSlashStar # rs) (x # xs) =
     (rx_match rs (x # xs) \<or> (x \<noteq> CHR ''/'' \<and> rx_match (NonSlashStar # rs) xs))"

fun rx_test :: "rx list \<Rightarrow> string \<Rightarrow> bool" where
  "rx_test rs [] = rx_match rs []"
| "rx_test rs (x # xs) = (rx_match rs (x # xs) \<or> rx_test rs xs)"

fun matches_one_of :: "string \<Rightarrow> string list \<Rightarrow> error + bool" where
  "matches_one_of path [] = Inr False"
| "matches_one_of path (p # patterns) =
     (case compile_regex (regexPattern p) of
        Inl e \<Rightarrow> Inl e
      | Inr regex \<Rightarrow>
          (if rx_test regex path then Inr True else matches_one_of path patterns))"

definition matchesFilePattern :: "string \<Rightarrow> string \<Rightarrow> error + bool" where
  "matchesFilePattern path pattern =
     (if pattern = [] \<or> path = [] then Inr True
      else matches_one_of path (map trim (split_comma pattern)))"

subsection \<open>deduplicateObject, sortObject and processJson\<close>

text \<open>
  \<^verbatim>\<open>deduplicateObject(obj, parentSeen = null)\<close>: every call in the program passes
  \<^verbatim>\<open>null\<close>, so each object is walked with a set of its own.
\<close>

fun deduplicateObject_scoped :: "jsval \<Rightarrow> string set option \<Rightarrow> jsval"
  and dedup_props_scoped ::
    "(string \<times> jsval) list \<Rightarrow> (string \<times> jsval) list \<Rightarrow> string set \<Rightarrow> (string \<times> jsval) list"
where
  "deduplicateObject_scoped (JArr xs) parentSeen =
     JArr (map (\<lambda>item. if is_object item then deduplicateObject_scoped item None else item) xs)"
| "deduplicateObject_scoped (JObj ps) parentSeen =
     JObj (dedup_props_scoped ps [] (case parentSeen of Some seen \<Rightarrow> seen | None \<Rightarrow> {}))"
| "deduplicateObject_scoped JNull parentSeen = JNull"
| "deduplicateObject_scoped (JBool b) parentSeen = JBool b"
| "deduplicateObject_scoped (JNum n) parentSeen = JNum n"
| "deduplicateObject_scoped (JStr s) parentSeen = JStr s"
| "dedup_props_scoped [] newObj seen = newObj"
| "dedup_props_scoped (p # rest) newObj seen =
     (if fst p \<in> seen then dedup_props_scoped rest newObj seen
      else dedup_props_scoped rest
             (js_assign (fst p)
                (if is_object (snd p) then deduplicateObject_scoped (snd p) None else snd p)
                newObj)
             (insert (fst p) seen))"

function sortObject_scoped :: "comparator \<Rightarrow> jsval \<Rightarrow> jsval" where
  "sortObject_scoped sortFunction (JArr xs) =
     JArr (map (\<lambda>item. if is_object item then sortObject_scoped sortFunction item else item) xs)"
| "sortObject_scoped sortFunction JNull = JNull"
| "sortObject_scoped sortFunction (JBool b) = JBool b"
| "sortObject_scoped sortFunction (JNum n) = JNum n"
| "sortObject_scoped sortFunction (JStr s) = JStr s"
| "sortObject_scoped sortFunction (JObj ps) =
     JObj (foldl
             (\<lambda>result key.
                case map_of ps key of
                  None \<Rightarrow> result
                | Some v \<Rightarrow>
                    js_assign key
                      (if is_object v then sortObject_scoped sortFunction v else v) result)
             [] (array_sort sortFunction (map fst ps)))"
  by pat_completeness auto
termination
proof (relation "measure (\<lambda>(sortFunction, obj). size obj)", goal_cases)
  case 1
  then show ?case by simp
next
  case (2 sortFunction xs item)
  then show ?case using size_element_less [of item xs] by simp
next
  case (3 sortFunction ps result key v)
  then show ?case using size_map_of_less [of ps key v] by simp
qed

definition processJson_scoped :: "string \<Rightarrow> prettier_options \<Rightarrow> printed" where
  "processJson_scoped text options =
     or_return text
       (let path = (case filepath options of Some f \<Rightarrow> f | None \<Rightarrow> []);
            filePattern = (case jsonFilePattern options of Some p \<Rightarrow> p | None \<Rightarrow> [])
        in case (if filePattern = [] then Inr True
                 else matchesFilePattern path filePattern) of
             Inl e \<Rightarrow> Inl e
           | Inr matches \<Rightarrow>
               (if matches then
                  (case JSON_parse text of
                     Inl e \<Rightarrow> Inl e
                   | Inr json \<Rightarrow>
                       Inr (sortObject_scoped (createSortFunction (jsonSortOrder options))
                              (deduplicateObject_scoped json None)))
                else JSON_parse text))"

section \<open>sort.ts: the options resolver and the sorter on the syntax tree\<close>

subsection \<open>parseOptions, applyDefaultOptions, createSortCompareFunction\<close>

definition allowedCategorySortValues :: "jsval list" where
  "allowedCategorySortValues =
     JNull # map JStr
       [''caseInsensitiveLexical'', ''caseInsensitiveNumeric'',
        ''caseInsensitiveReverseLexical'', ''caseInsensitiveReverseNumeric'',
        ''lexical'', ''numeric'', ''reverseLexical'', ''reverseNumeric'', ''none'']"

fun is_null_or_string :: "jsval \<Rightarrow> bool" where
  "is_null_or_string JNull = True"
| "is_null_or_string (JStr s) = True"
| "is_null_or_string v = False"

definition valid_entry :: "jsval \<Rightarrow> bool" where
  "valid_entry categorySort =
     (is_null_or_string categorySort \<and> categorySort \<in> set allowedCategorySortValues)"

text \<open>
  \<^verbatim>\<open>parseOptions(prettierOptions)\<close> reads two options, each of which may be absent
  (\<open>None\<close>) or any value. The result is the record
  \<^verbatim>\<open>{ jsonRecursiveSort, jsonSortOrder? }\<close>, as a pair.
\<close>

definition parseOptions :: "jsval option \<Rightarrow> jsval option \<Rightarrow> error + (bool \<times> string option)" where
  "parseOptions recursiveOption sortOrderOption =
     (case recursiveOption of
        Some (JBool recursive) \<Rightarrow>
          (case sortOrderOption of
             None \<Rightarrow> Inr (recursive, None)
           | Some (JStr rawJsonSortOrder) \<Rightarrow>
               (case JSON_parse rawJsonSortOrder of
                  Inl Outside_model \<Rightarrow> Inl Outside_model
                | Inl e \<Rightarrow> Inl Failed_to_parse_sort_order_option_as_JSON
                | Inr (JObj entries) \<Rightarrow>
                    (if list_all valid_entry (map snd entries)
                     then Inr (recursive, Some rawJsonSortOrder)
                     else Inl Invalid_custom_sort_entry)
                | Inr JNull \<Rightarrow> Inl TypeError
                | Inr parsedJsonSortOrder \<Rightarrow> Inl Invalid_custom_sort_order)
           | Some v \<Rightarrow> Inl Invalid_jsonSortOrder_option)
      | _ \<Rightarrow> Inl Invalid_jsonRecursiveSort_option)"

definition applyDefaultOptions :: "bool \<times> string option \<Rightarrow> bool \<times> string" where
  "applyDefaultOptions options =
     (fst options,
      case snd options of
        None \<Rightarrow> ''lexical''
      | Some order \<Rightarrow> (if order = [] then ''lexical'' else order))"

text \<open>
  \<^verbatim>\<open>createSortCompareFunction(jsonSortOrder)\<close>. When the string does not parse, the
  comparator is the registry's entry for it, or \<open>lexicalSort\<close>. When it parses to an
  object whose entries are valid, the comparator ranks each key by the self-comparison
  of the policy that the object gives it. For any other parsed value the closure would
  index a non-object or call a missing policy; that is outside the model (\<open>None\<close>).
\<close>

definition evaluateSortEntry :: "string \<Rightarrow> string option \<Rightarrow> int" where
  "evaluateSortEntry v entry =
     (case entry of
        None \<Rightarrow> 0
      | Some name \<Rightarrow> (case categorySortFunctions name of None \<Rightarrow> 0 | Some f \<Rightarrow> f v v))"

definition entry_of :: "(string \<times> jsval) list \<Rightarrow> string \<Rightarrow> string option" where
  "entry_of parsedJsonSortOrder a =
     (case map_of parsedJsonSortOrder a of
        Some (JStr name) \<Rightarrow> (if name = [] then None else Some name)
      | _ \<Rightarrow> None)"

definition createSortCompareFunction :: "string \<Rightarrow> comparator option" where
  "createSortCompareFunction sortOrder =
     (case JSON_parse sortOrder of
        Inl Outside_model \<Rightarrow> None
      | Inl e \<Rightarrow>
          Some (case categorySortFunctions sortOrder of Some f \<Rightarrow> f | None \<Rightarrow> lexicalSort)
      | Inr (JObj parsedJsonSortOrder) \<Rightarrow>
          (if list_all valid_entry (map snd parsedJsonSortOrder) then
             Some (\<lambda>a b.
               let aResult = evaluateSortEntry a (entry_of parsedJsonSortOrder a);
                   bResult = evaluateSortEntry b (entry_of parsedJsonSortOrder b)
               in if aResult \<noteq> bResult then aResult - bResult else lexicalSort a b)
           else None)
      | Inr v \<Rightarrow> None)"

subsection \<open>sortAst\<close>

text \<open>
  The syntax tree that the host's parser hands over. A property is its node type, its
  key and its value; an array element may be \<^verbatim>\<open>null\<close> (\<open>None\<close>). \<open>Literal\<close> stands for
  every node type the sorter does not look into, with its type name and source text.
\<close>

datatype ast =
    ObjectExpression "(string \<times> ast \<times> ast) list"
  | ArrayExpression "ast option list"
  | StringLiteral string
  | NullLiteral
  | SpreadElement
  | Literal string string

definition property_type :: "string \<times> ast \<times> ast \<Rightarrow> string" where
  "property_type property = fst property"

definition property_key :: "string \<times> ast \<times> ast \<Rightarrow> ast" where
  "property_key property = fst (snd property)"

definition property_value :: "string \<times> ast \<times> ast \<Rightarrow> ast" where
  "property_value property = snd (snd property)"

fun is_StringLiteral :: "ast \<Rightarrow> bool" where
  "is_StringLiteral (StringLiteral s) = True"
| "is_StringLiteral node = False"

fun key_value :: "ast \<Rightarrow> string" where
  "key_value (StringLiteral s) = s"
| "key_value node = []"

fun valueIsArrayOrObjectExpression :: "ast \<Rightarrow> bool" where
  "valueIsArrayOrObjectExpression (ObjectExpression properties) = True"
| "valueIsArrayOrObjectExpression (ArrayExpression elements) = True"
| "valueIsArrayOrObjectExpression node = False"

text \<open>
  \<^verbatim>\<open>properties.sort((propertyA, propertyB) => \<dots>)\<close>. The comparator first asserts that
  both keys are string literals. The host calls it only for an array of two or more
  elements, and then on every element at least once, so a key of another type raises
  exactly when there are at least two properties; \<open>key_value\<close> is read only after that
  check.
\<close>

definition sort_properties ::
  "comparator \<Rightarrow> (string \<times> ast \<times> ast) list \<Rightarrow> error + (string \<times> ast \<times> ast) list" where
  "sort_properties sortCompareFunction properties =
     (if 2 \<le> length properties \<and> list_ex (\<lambda>property. \<not> is_StringLiteral (property_key property)) properties
      then Inl Object_property_key_type_not_supported
      else Inr (array_sort
                  (\<lambda>propertyA propertyB.
                     sortCompareFunction (key_value (property_key propertyA))
                       (key_value (property_key propertyB)))
                  properties))"

lemma mset_binaryInsertionSort:
  "mset (binaryInsertionSort cmp work rest) = mset work + mset rest"
proof (induction rest arbitrary: work)
  case Nil
  then show ?case by simp
next
  case (Cons pivot rest)
  have "mset (take n work) + mset (drop n work) = mset work" for n
    by (simp flip: mset_append)
  then have "mset (take n work @ pivot # drop n work) = add_mset pivot (mset work)" for n
    by simp
  with Cons show ?case
    by (simp add: Let_def)
qed

lemma mset_array_sort: "mset (array_sort cmp xs) = mset xs"
proof (cases xs)
  case Nil
  then show ?thesis by (simp add: array_sort_def)
next
  case (Cons x ys)
  show ?thesis
  proof (cases ys)
    case Nil
    with Cons show ?thesis by (simp add: array_sort_def)
  next
    case (Cons y zs)
    have "mset (take n us) + mset (drop n us) = mset us" for n and us :: "'a list"
      by (simp flip: mset_append)
    with Cons \<open>xs = x # ys\<close> show ?thesis
      by (simp add: array_sort_def Let_def mset_binaryInsertionSort)
  qed
qed

lemma set_array_sort: "set (array_sort cmp xs) = set xs"
  using mset_array_sort [of cmp xs] by (metis set_mset_mset)

lemma size_property_value_less:
  "property \<in> set properties \<Longrightarrow>
     size (property_value property) < size (ObjectExpression properties)"
proof (induction properties)
  case Nil
  then show ?case by simp
next
  case (Cons p ps)
  then show ?case
    by (cases p; cases property) (auto simp: property_value_def)
qed

lemma size_ast_element_less:
  "Some element \<in> set elements \<Longrightarrow> size element < size (ArrayExpression elements)"
  by (induction elements) auto

function sortAst :: "ast \<Rightarrow> bool \<Rightarrow> comparator \<Rightarrow> error + ast" where
  "sortAst (ArrayExpression elements) recursive sortCompareFunction =
     (if recursive then
        (case all_or_error
                (map (\<lambda>element.
                        case element of
                          None \<Rightarrow> Inr None
                        | Some node \<Rightarrow>
                            (if node = NullLiteral then Inr (Some node)
                             else if node = SpreadElement then Inl Unreachable_SpreadElement
                             else (case sortAst node recursive sortCompareFunction of
                                     Inl e \<Rightarrow> Inl e
                                   | Inr sortedNode \<Rightarrow> Inr (Some sortedNode))))
                   elements) of
           Inl e \<Rightarrow> Inl e
         | Inr sortedElements \<Rightarrow> Inr (ArrayExpression sortedElements))
      else Inr (ArrayExpression elements))"
| "sortAst (ObjectExpression properties) recursive sortCompareFunction =
     (if list_ex (\<lambda>property. property_type property \<noteq> ''ObjectProperty'') properties
      then Inl Property_type_not_supported
      else
        (case sort_properties sortCompareFunction properties of
           Inl e \<Rightarrow> Inl e
         | Inr sortedProperties \<Rightarrow>
             (if recursive then
                (case all_or_error
                        (map (\<lambda>property.
                                if valueIsArrayOrObjectExpression (property_value property) then
                                  (case sortAst (property_value property) recursive
                                          sortCompareFunction of
                                     Inl e \<Rightarrow> Inl e
                                   | Inr sortedValue \<Rightarrow>
                                       Inr (property_type property, property_key property,
                                            sortedValue))
                                else Inr property)
                           sortedProperties) of
                   Inl e \<Rightarrow> Inl e
                 | Inr recursivelySortedProperties \<Rightarrow>
                     Inr (ObjectExpression recursivelySortedProperties))
              else Inr (ObjectExpression sortedProperties))))"
| "sortAst (StringLiteral s) recursive sortCompareFunction = Inr (StringLiteral s)"
| "sortAst NullLiteral recursive sortCompareFunction = Inr NullLiteral"
| "sortAst SpreadElement recursive sortCompareFunction = Inr SpreadElement"
| "sortAst (Literal t raw) recursive sortCompareFunction = Inr (Literal t raw)"
  by pat_completeness auto
termination
proof (relation "measure (\<lambda>(node, recursive, sortCompareFunction). size node)", goal_cases)
  case 1
  then show ?case by simp
next
  case (2 elements recursive sortCompareFunction element node)
  then show ?case using size_ast_element_less [of node elements] by simp
next
  case (3 properties recursive sortCompareFunction sortedProperties property)
  then have "property \<in> set properties"
    by (auto simp: sort_properties_def set_array_sort split: if_splits)
  then show ?case using size_property_value_less [of property properties] by simp
qed

declare sortAst.simps [simp del]

text \<open>
  The \<^verbatim>\<open>parse\<close> function that \<^verbatim>\<open>createParser\<close> builds, from the tree that the host's
  parser returned for the text and the two options.
\<close>

definition createParser_parse :: "ast \<Rightarrow> jsval option \<Rightarrow> jsval option \<Rightarrow> error + ast" where
  "createParser_parse ast recursiveOption sortOrderOption =
     (case parseOptions recursiveOption sortOrderOption of
        Inl e \<Rightarrow> Inl e
      | Inr options \<Rightarrow>
          (case createSortCompareFunction (snd (applyDefaultOptions options)) of
             None \<Rightarrow> Inl Outside_model
           | Some sortCompareFunction \<Rightarrow>
               sortAst ast (fst (applyDefaultOptions options)) sortCompareFunction))"

section \<open>Objects without a repeated key\<close>

text \<open>
  A value in which no object, at any depth, has two properties of the same name; and the
  same for the pieces the parser works with: the tokens, the open frames and the mode.
\<close>

fun distinct_keys :: "jsval \<Rightarrow> bool" where
  "distinct_keys (JObj ps) = (distinct (map fst ps) \<and> list_all (\<lambda>p. distinct_keys (snd p)) ps)"
| "distinct_keys (JArr xs) = list_all distinct_keys xs"
| "distinct_keys v = True"

fun frame_ok :: "frame \<Rightarrow> bool" where
  "frame_ok (FArr es) = list_all distinct_keys es"
| "frame_ok (FObj ps) = distinct_keys (JObj ps)"
| "frame_ok (FKey ps k) = distinct_keys (JObj ps)"

fun token_ok :: "token \<Rightarrow> bool" where
  "token_ok (Prim v) = distinct_keys v"
| "token_ok t = True"

fun mode_ok :: "mode \<Rightarrow> bool" where
  "mode_ok (Fin v) = distinct_keys v"
| "mode_ok m = True"

section \<open>What it means that arrays are kept\<close>






section \<open>The comparators\<close>

text \<open>
  C7. For every comparator \<open>cmp\<close> and all strings \<open>a\<close>, \<open>b\<close>, the comparator
  \<open>caseInsensitiveSort cmp\<close> answers \<open>cmp\<close> of the two lower-cased strings when that is
  not zero, and \<open>cmp a b\<close> on the strings as they are when it is zero. In particular
  \<open>caseInsensitiveSort lexicalSort a b\<close> is \<open>lexicalSort\<close> of the lower-cased strings
  whenever these differ.
\<close>

theorem caseInsensitiveSort_folds_then_breaks_ties:
  "(cmp (toLowerCase a) (toLowerCase b) \<noteq> 0 \<longrightarrow>
      caseInsensitiveSort cmp a b = cmp (toLowerCase a) (toLowerCase b))
   \<and> (cmp (toLowerCase a) (toLowerCase b) = 0 \<longrightarrow> caseInsensitiveSort cmp a b = cmp a b)
   \<and> (toLowerCase a \<noteq> toLowerCase b \<longrightarrow>
      caseInsensitiveSort lexicalSort a b = lexicalSort (toLowerCase a) (toLowerCase b))"
proof -
  have "lexicalSort x y \<noteq> 0" if "x \<noteq> y" for x y :: string
    using that by (auto simp: lexicalSort_def)
  then show ?thesis
    by (simp add: caseInsensitiveSort_def Let_def)
qed

theorem caseInsensitiveSort_folds_then_breaks_ties_witness:
  "lexicalSort (toLowerCase ''B'') (toLowerCase ''a'') \<noteq> 0
   \<and> caseInsensitiveSort lexicalSort ''B'' ''a'' = 1
   \<and> lexicalSort (toLowerCase ''Key'') (toLowerCase ''key'') = 0
   \<and> caseInsensitiveSort lexicalSort ''Key'' ''key'' = lexicalSort ''Key'' ''key''
   \<and> toLowerCase ''B'' \<noteq> toLowerCase ''a''
   \<and> caseInsensitiveSort lexicalSort ''B'' ''a'' = lexicalSort ''b'' ''a''"
proof -
  have lower: "toLowerCase ''B'' = ''b''" "toLowerCase ''a'' = ''a''"
    "toLowerCase ''Key'' = ''key''" "toLowerCase ''key'' = ''key''"
    by (simp_all add: toLowerCase_def toLowerCase_char_def upper_letters_def lower_letters_def)
  have cmp: "lexicalSort ''b'' ''a'' = 1" "lexicalSort ''key'' ''key'' = 0"
    by (simp_all add: lexicalSort_def)
  show ?thesis
    using caseInsensitiveSort_folds_then_breaks_ties [of lexicalSort "''B''" "''a''"]
      caseInsensitiveSort_folds_then_breaks_ties [of lexicalSort "''Key''" "''key''"]
    by (simp add: lower cmp)
qed



text \<open>
  C3, as the code has it. None of the keys \<open>item10\<close>, \<open>item2\<close>, \<open>item1\<close> starts with a digit,
  so the prefix pattern \<^verbatim>\<open>/^(\d+)/u\<close> matches none of them and the policy \<open>numeric\<close>
  compares them as whole strings: the order is \<open>item1\<close>, \<open>item10\<close>, \<open>item2\<close>.
\<close>

theorem numeric_policy_orders_item_keys_lexically:
  "map_option (\<lambda>cmp. array_sort cmp [''item10'', ''item2'', ''item1''])
     (categorySortFunctions ''numeric'')
   = Some [''item1'', ''item10'', ''item2'']"
  by code_simp

text \<open>
  The order of the specification's scenario, \<open>item1\<close>, \<open>item2\<close>, \<open>item10\<close>, is not what the
  policy produces.
\<close>

theorem numeric_policy_item_keys_counterexample:
  "map_option (\<lambda>cmp. array_sort cmp [''item10'', ''item2'', ''item1''])
     (categorySortFunctions ''numeric'')
   \<noteq> Some [''item1'', ''item2'', ''item10'']"
  by code_simp

section \<open>JSON.parse returns no repeated key\<close>

text \<open>
  Whatever the text, an object that \<^verbatim>\<open>JSON.parse\<close> returns has each of its keys once, at
  every depth: a member whose name is already present replaces the value of that
  property. So the engines, which run on the parsed value, never see a repeated key.
\<close>

lemma insert_index_keys: "set (map fst (insert_index k v ps)) = insert k (set (map fst ps))"
  by (induction ps) auto

lemma insert_index_distinct:
  "distinct (map fst ps) \<Longrightarrow> k \<notin> fst ` set ps \<Longrightarrow> distinct (map fst (insert_index k v ps))"
proof (induction ps)
  case Nil
  then show ?case by simp
next
  case (Cons p ps)
  then show ?case
    using insert_index_keys [of k v ps] by auto
qed

lemma insert_index_values:
  "list_all P (insert_index k v ps) = (P (k, v) \<and> list_all P ps)"
  by (induction ps) auto

lemma define_prop_distinct_keys:
  assumes "distinct_keys (JObj ps)" and "distinct_keys v"
  shows "distinct_keys (JObj (define_prop k v ps))"
proof (cases "k \<in> fst ` set ps")
  case True
  have "map fst (map (\<lambda>p. if fst p = k then (k, v) else p) ps) = map fst ps"
    by (induction ps) auto
  with assms have "distinct (map fst (map (\<lambda>p. if fst p = k then (k, v) else p) ps))"
    by (simp del: map_map)
  moreover have "list_all (\<lambda>p. distinct_keys (snd p)) (map (\<lambda>p. if fst p = k then (k, v) else p) ps)"
    using assms by (auto simp: list_all_iff)
  ultimately have "distinct_keys (JObj (map (\<lambda>p. if fst p = k then (k, v) else p) ps))"
    by (simp del: map_map)
  with True show ?thesis
    by (simp add: define_prop_def)
next
  case False
  with assms show ?thesis
    by (auto simp: define_prop_def insert_index_distinct insert_index_values)
qed

lemma complete_ok:
  assumes "list_all frame_ok st" and "distinct_keys v" and "complete v st = Inr (m', st')"
  shows "mode_ok m' \<and> list_all frame_ok st'"
proof (cases st)
  case Nil
  with assms show ?thesis by (auto simp: complete_def)
next
  case (Cons f st0)
  with assms show ?thesis
    using define_prop_distinct_keys
    by (cases f) (auto simp: complete_def simp del: distinct_keys.simps(1))
qed

lemma value_start_ok:
  assumes "list_all frame_ok st" and "token_ok t" and "value_start st t = Inr (m', st')"
  shows "mode_ok m' \<and> list_all frame_ok st'"
  using assms complete_ok
  by (cases t) (auto simp: value_start_def)

lemma member_name_ok:
  assumes "list_all frame_ok st" and "member_name st t = Inr (m', st')"
  shows "mode_ok m' \<and> list_all frame_ok st'"
  using assms
  by (auto simp: member_name_def split: list.splits frame.splits token.splits jsval.splits)

lemma step_ok:
  assumes "list_all frame_ok st" and "token_ok t" and "step m st t = Inr (m', st')"
  shows "mode_ok m' \<and> list_all frame_ok st'"
proof (cases m)
  case Val
  with assms show ?thesis using value_start_ok by (simp add: step_def)
next
  case ValOrEnd
  show ?thesis
  proof (cases "\<exists>es st0. st = FArr es # st0 \<and> t = RBracket")
    case True
    then obtain es st0 where "st = FArr es # st0" "t = RBracket" by blast
    with assms ValOrEnd show ?thesis
      using complete_ok [of st0 "JArr (rev es)" m' st'] by (simp add: step_def)
  next
    case False
    with assms ValOrEnd have "value_start st t = Inr (m', st')"
      by (auto simp: step_def split: list.splits frame.splits token.splits)
    with assms show ?thesis using value_start_ok by blast
  qed
next
  case KeyOrEnd
  show ?thesis
  proof (cases "\<exists>ps st0. st = FObj ps # st0 \<and> t = RBrace")
    case True
    then obtain ps st0 where "st = FObj ps # st0" "t = RBrace" by blast
    with assms KeyOrEnd show ?thesis
      using complete_ok [of st0 "JObj ps" m' st'] by (simp add: step_def)
  next
    case False
    with assms KeyOrEnd have "member_name st t = Inr (m', st')"
      by (auto simp: step_def split: list.splits frame.splits token.splits)
    with assms show ?thesis using member_name_ok by blast
  qed
next
  case Key
  with assms show ?thesis using member_name_ok by (simp add: step_def)
next
  case Col
  with assms show ?thesis by (auto simp: step_def split: token.splits)
next
  case Sep
  show ?thesis
  proof (cases st)
    case Nil
    with assms Sep show ?thesis by (simp add: step_def)
  next
    case (Cons f st0)
    show ?thesis
    proof (cases f)
      case (FArr es)
      with assms Sep Cons show ?thesis
        using complete_ok [of st0 "JArr (rev es)" m' st']
        by (cases t) (auto simp: step_def)
    next
      case (FObj ps)
      with assms Sep Cons show ?thesis
        using complete_ok [of st0 "JObj ps" m' st']
        by (cases t) (auto simp: step_def)
    next
      case (FKey ps k)
      with assms Sep Cons show ?thesis by (simp add: step_def)
    qed
  qed
next
  case (Fin v)
  with assms show ?thesis by (simp add: step_def)
qed

lemma run_ok:
  "mode_ok m \<Longrightarrow> list_all frame_ok st \<Longrightarrow> list_all token_ok ts \<Longrightarrow> run m st ts = Inr v
     \<Longrightarrow> distinct_keys v"
proof (induction ts arbitrary: m st)
  case Nil
  then show ?case by (cases m) auto
next
  case (Cons t ts)
  from Cons.prems obtain m' st' where s: "step m st t = Inr (m', st')"
    and r: "run m' st' ts = Inr v"
    by (auto split: sum.splits)
  from Cons.prems step_ok [OF _ _ s] have "mode_ok m' \<and> list_all frame_ok st'"
    by simp
  with Cons.IH [of m' st'] Cons.prems r show ?case by simp
qed

lemma next_token_ok:
  assumes "next_token c cs = Inr (t, rest)"
  shows "token_ok t"
proof (cases "c = CHR 0x22")
  case True
  with assms show ?thesis
    by (auto simp: next_token_string split: sum.splits)
next
  case notq: False
  show ?thesis
  proof (cases "c = CHR ''-'' \<or> is_digit c")
    case True
    with assms show ?thesis
      by (auto simp: next_token_number split: sum.splits)
  next
    case False
    from assms show ?thesis
      unfolding next_token_other [OF notq False] by (auto split: if_splits)
  qed
qed

lemma lex_ok: "lex cs = Inr ts \<Longrightarrow> list_all token_ok ts"
proof (induction cs arbitrary: ts rule: lex.induct)
  case 1
  then show ?case by simp
next
  case (2 c cs)
  show ?case
  proof (cases "is_json_ws c")
    case True
    with 2 show ?thesis by simp
  next
    case False
    with "2.prems" obtain t rest ts' where
      nt: "next_token c cs = Inr (t, rest)" and l: "lex rest = Inr ts'" and ts: "ts = t # ts'"
      by (auto split: sum.splits)
    from "2.IH"(2) [OF False nt refl l] have "list_all token_ok ts'" .
    with next_token_ok [OF nt] ts show ?thesis by simp
  qed
qed

lemma JSON_parse_distinct_keys: "JSON_parse text = Inr json \<Longrightarrow> distinct_keys json"
proof -
  assume p: "JSON_parse text = Inr json"
  then obtain ts where l: "lex text = Inr ts" and r: "run Val [] ts = Inr json"
    by (auto simp: JSON_parse_def split: sum.splits)
  from lex_ok [OF l] have "list_all token_ok ts" .
  from run_ok [OF _ _ this r] show ?thesis by simp
qed

section \<open>The engine on documents\<close>

text \<open>
  C1, at the input that shows the divergence. The document \<^verbatim>\<open>{"a":1,"b":2,"b":3}\<close> is
  read with \<^verbatim>\<open>JSON.parse\<close> before the deduplicator sees it, and the object that
  \<^verbatim>\<open>JSON.parse\<close> builds already holds one \<open>b\<close>, with the value of the last
  occurrence. Both engines print \<^verbatim>\<open>{"a":1,"b":3}\<close> under the policy \<open>lexical\<close>: the value
  that survives is \<open>3\<close>, not the first occurrence's \<open>2\<close>.
\<close>

theorem duplicate_key_keeps_last_value:
  \<open>processJson ''{"a":1,"b":2,"b":3}''
     \<lparr>filepath = None, jsonRecursiveSort = False, jsonSortOrder = Some ''lexical'',
      jsonFilePattern = None\<rparr>
   = Stringified (JObj [(''a'', JNum 1), (''b'', JNum 3)])
   \<and> processJson_scoped ''{"a":1,"b":2,"b":3}''
     \<lparr>filepath = None, jsonRecursiveSort = False, jsonSortOrder = Some ''lexical'',
      jsonFilePattern = None\<rparr>
   = Stringified (JObj [(''a'', JNum 1), (''b'', JNum 3)])\<close>
  by code_simp

text \<open>
  The example of the README (part_000) is the same case: it documents \<open>b\<close> and \<open>z\<close>
  coming out with the values \<open>2\<close> and \<open>1\<close> of their first occurrences, and the engines
  print \<open>3\<close> and \<open>3\<close>.
\<close>

lemma readme_example_keeps_last_values:
  \<open>processJson ''{"a":1,"b":2,"b":3,"c":{"z":1,"y":2,"z":3}}''
     \<lparr>filepath = None, jsonRecursiveSort = True, jsonSortOrder = Some ''lexical'',
      jsonFilePattern = None\<rparr>
   = Stringified
       (JObj [(''a'', JNum 1), (''b'', JNum 3),
              (''c'', JObj [(''y'', JNum 2), (''z'', JNum 3)])])
   \<and> processJson_scoped ''{"a":1,"b":2,"b":3,"c":{"z":1,"y":2,"z":3}}''
     \<lparr>filepath = None, jsonRecursiveSort = True, jsonSortOrder = Some ''lexical'',
      jsonFilePattern = None\<rparr>
   = Stringified
       (JObj [(''a'', JNum 1), (''b'', JNum 3),
              (''c'', JObj [(''y'', JNum 2), (''z'', JNum 3)])])\<close>
  by code_simp

text \<open>
  Neither \<^verbatim>\<open>processJson\<close> reads the option \<^verbatim>\<open>jsonRecursiveSort\<close>: its value changes
  nothing.
\<close>

lemma processJson_ignores_recursive_flag:
  "processJson text (options\<lparr>jsonRecursiveSort := recursive\<rparr>) = processJson text options"
  "processJson_scoped text (options\<lparr>jsonRecursiveSort := recursive\<rparr>)
     = processJson_scoped text options"
proof -
  have unchanged:
    "jsonSortOrder (options\<lparr>jsonRecursiveSort := recursive\<rparr>) = jsonSortOrder options"
    "jsonFilePattern (options\<lparr>jsonRecursiveSort := recursive\<rparr>) = jsonFilePattern options"
    "filepath (options\<lparr>jsonRecursiveSort := recursive\<rparr>) = filepath options"
    by simp_all
  show "processJson text (options\<lparr>jsonRecursiveSort := recursive\<rparr>) = processJson text options"
    by (simp only: processJson_def unchanged)
  show "processJson_scoped text (options\<lparr>jsonRecursiveSort := recursive\<rparr>)
     = processJson_scoped text options"
    by (simp only: processJson_scoped_def unchanged)
qed

text \<open>
  C4, at the input that shows the divergence. \<^verbatim>\<open>processJson\<close> never reads
  \<^verbatim>\<open>jsonRecursiveSort\<close>, and \<^verbatim>\<open>sortObject\<close> always descends: with the flag off, the keys
  \<open>z\<close>, \<open>y\<close> of the nested object of \<^verbatim>\<open>{"b":{"z":1,"y":2},"a":0}\<close> come out as \<open>y\<close>, \<open>z\<close>.
\<close>

theorem nested_keys_sorted_with_recursive_flag_off:
  \<open>processJson ''{"b":{"z":1,"y":2},"a":0}''
     \<lparr>filepath = None, jsonRecursiveSort = False, jsonSortOrder = Some ''lexical'',
      jsonFilePattern = None\<rparr>
   = Stringified (JObj [(''a'', JNum 0), (''b'', JObj [(''y'', JNum 2), (''z'', JNum 1)])])
   \<and> processJson_scoped ''{"b":{"z":1,"y":2},"a":0}''
     \<lparr>filepath = None, jsonRecursiveSort = False, jsonSortOrder = Some ''lexical'',
      jsonFilePattern = None\<rparr>
   = Stringified (JObj [(''a'', JNum 0), (''b'', JObj [(''y'', JNum 2), (''z'', JNum 1)])])\<close>
  by code_simp

text \<open>
  C6, at the input that shows the divergence. Under the policy
  \<open>caseInsensitiveNumeric\<close> the keys \<open>A\<close> and \<open>a\<close> fold to the same string, and
  \<open>numericSort\<close> answers \<open>-1\<close> for it whichever key comes first, so the sort swaps the
  two keys each time it runs. The document \<^verbatim>\<open>{"A":1,"a":2}\<close> has no duplicate key; the
  engine prints it with \<open>a\<close> before \<open>A\<close>, and, applied to that output (the second text
  below, as \<^verbatim>\<open>JSON.stringify(value, null, 2)\<close> writes it), prints \<open>A\<close> before \<open>a\<close> again.
\<close>

theorem second_run_swaps_case_variants_back:
  \<open>processJson_scoped ''{"A":1,"a":2}''
     \<lparr>filepath = None, jsonRecursiveSort = False,
      jsonSortOrder = Some ''caseInsensitiveNumeric'', jsonFilePattern = None\<rparr>
   = Stringified (JObj [(''a'', JNum 2), (''A'', JNum 1)])
   \<and> processJson_scoped
       (''{'' @ [CHR 0x0A] @ ''  "a": 2,'' @ [CHR 0x0A] @ ''  "A": 1'' @ [CHR 0x0A] @ ''}'')
     \<lparr>filepath = None, jsonRecursiveSort = False,
      jsonSortOrder = Some ''caseInsensitiveNumeric'', jsonFilePattern = None\<rparr>
   = Stringified (JObj [(''A'', JNum 1), (''a'', JNum 2)])\<close>
  by code_simp

text \<open>
  C9, at the input that shows the divergence. The path \<open>a.json\<close> matches none of the
  patterns of \<^verbatim>\<open>*.config.json\<close>, and \<^verbatim>\<open>processJson\<close> then returns
  \<^verbatim>\<open>JSON.stringify(JSON.parse(text), null, 2)\<close>. The deduplicator and the sorter are not
  run, but \<^verbatim>\<open>JSON.parse\<close> has already merged the two members \<open>a\<close> of
  \<^verbatim>\<open>{"a":1,"a":2}\<close>: the text returned has a single \<open>a\<close>, with the value \<open>2\<close>.
\<close>

theorem unmatched_file_still_loses_duplicates:
  \<open>matchesFilePattern ''a.json'' ''*.config.json'' = Inr False
   \<and> processJson_scoped ''{"a":1,"a":2}''
     \<lparr>filepath = Some ''a.json'', jsonRecursiveSort = False, jsonSortOrder = None,
      jsonFilePattern = Some ''*.config.json''\<rparr>
   = Stringified (JObj [(''a'', JNum 2)])\<close>
  by code_simp

text \<open>
  In general, for a file that matches none of the patterns the engine returns what
  \<^verbatim>\<open>JSON.parse\<close> made of the text, printed again.
\<close>

lemma unmatched_file_is_parsed_and_printed:
  assumes "jsonFilePattern options = Some pattern" and "pattern \<noteq> []"
    and "filepath options = Some path"
    and "matchesFilePattern path pattern = Inr False"
  shows "processJson_scoped text options = or_return text (JSON_parse text)"
  using assms by (simp add: processJson_scoped_def)



section \<open>Arrays\<close>







lemma dedup_scoped_primitive: "\<not> is_object v \<Longrightarrow> deduplicateObject_scoped v seen = v"
  by (cases v) simp_all

lemma sort_scoped_primitive: "\<not> is_object v \<Longrightarrow> sortObject_scoped f v = v"
  by (cases v) simp_all

lemma dedup_scoped_guard [simp]:
  "(if is_object v then deduplicateObject_scoped v seen else v) = deduplicateObject_scoped v seen"
  by (cases v) simp_all

lemma sort_scoped_guard [simp]:
  "(if is_object v then sortObject_scoped f v else v) = sortObject_scoped f v"
  by (cases v) simp_all
















text \<open>
  The seen-set engine of lines 50--103 is another matter: its
  \<^verbatim>\<open>deduplicateObject\<close> has no branch for arrays, walks an array by its index keys and
  prints it as an object, without the elements whose index the shared set has seen.
\<close>

lemma seen_set_engine_prints_arrays_as_objects:
  \<open>processJson ''{"a":[7,[8,9]]}''
     \<lparr>filepath = None, jsonRecursiveSort = True, jsonSortOrder = Some ''lexical'',
      jsonFilePattern = None\<rparr>
   = Stringified (JObj [(''a'', JObj [(''0'', JNum 7), (''1'', JObj [])])])\<close>
  by code_simp

section \<open>The options resolver\<close>

text \<open>
  C2, as the code has it. \<^verbatim>\<open>parseOptions\<close> does try to parse the string as JSON, but a
  string that does not parse, or parses to something that is not an object, is
  rejected with an error, not taken as a policy name: it accepts, and returns
  unchanged, only a string that parses to an object whose values are each \<^verbatim>\<open>null\<close> or
  one of the nine policy names. The fallback that reads an unparsable string as a policy
  name is in \<^verbatim>\<open>createSortCompareFunction\<close>, which \<^verbatim>\<open>createParser\<close> calls after
  \<^verbatim>\<open>parseOptions\<close> has returned.
\<close>

theorem parseOptions_accepts_only_custom_order_maps:
  "(JSON_parse raw = Inl SyntaxError \<longrightarrow>
      parseOptions (Some (JBool recursive)) (Some (JStr raw))
        = Inl Failed_to_parse_sort_order_option_as_JSON)
   \<and> (JSON_parse raw = Inr v \<and> \<not> is_JObj v \<longrightarrow>
      parseOptions (Some (JBool recursive)) (Some (JStr raw))
        = Inl (if v = JNull then TypeError else Invalid_custom_sort_order))
   \<and> (parseOptions (Some (JBool recursive)) (Some (JStr raw)) = Inr accepted \<longrightarrow>
      accepted = (recursive, Some raw)
      \<and> (\<exists>entries. JSON_parse raw = Inr (JObj entries)
            \<and> list_all valid_entry (map snd entries)))
   \<and> (JSON_parse raw = Inl SyntaxError \<longrightarrow>
      createSortCompareFunction raw
        = Some (case categorySortFunctions raw of Some f \<Rightarrow> f | None \<Rightarrow> lexicalSort))"
proof -
  have 1: "parseOptions (Some (JBool recursive)) (Some (JStr raw))
        = Inl Failed_to_parse_sort_order_option_as_JSON" if "JSON_parse raw = Inl SyntaxError"
    using that by (simp add: parseOptions_def)
  have 2: "parseOptions (Some (JBool recursive)) (Some (JStr raw))
        = Inl (if v = JNull then TypeError else Invalid_custom_sort_order)"
    if "JSON_parse raw = Inr v" "\<not> is_JObj v"
    using that by (cases v) (simp_all add: parseOptions_def)
  have 3: "accepted = (recursive, Some raw)
      \<and> (\<exists>entries. JSON_parse raw = Inr (JObj entries) \<and> list_all valid_entry (map snd entries))"
    if "parseOptions (Some (JBool recursive)) (Some (JStr raw)) = Inr accepted"
    using that
    by (auto simp: parseOptions_def split: sum.splits error.splits jsval.splits if_splits)
  have 4: "createSortCompareFunction raw
        = Some (case categorySortFunctions raw of Some f \<Rightarrow> f | None \<Rightarrow> lexicalSort)"
    if "JSON_parse raw = Inl SyntaxError"
    using that by (simp add: createSortCompareFunction_def)
  from 1 2 3 4 show ?thesis by blast
qed

theorem parseOptions_accepts_only_custom_order_maps_witness:
  \<open>JSON_parse ''numeric'' = Inl SyntaxError
   \<and> parseOptions (Some (JBool True)) (Some (JStr ''numeric''))
       = Inl Failed_to_parse_sort_order_option_as_JSON
   \<and> createSortCompareFunction ''numeric'' = Some numericSort
   \<and> JSON_parse ''["numeric"]'' = Inr (JArr [JStr ''numeric''])
   \<and> parseOptions (Some (JBool True)) (Some (JStr ''["numeric"]''))
       = Inl Invalid_custom_sort_order
   \<and> parseOptions (Some (JBool True)) (Some (JStr ''{"id":"numeric","name":null}''))
       = Inr (True, Some ''{"id":"numeric","name":null}'')
   \<and> (\<exists>entries. JSON_parse ''{"id":"numeric","name":null}'' = Inr (JObj entries)
         \<and> list_all valid_entry (map snd entries))\<close>
proof -
  have fails: \<open>JSON_parse ''numeric'' = Inl SyntaxError\<close>
    by code_simp
  have array: \<open>JSON_parse ''["numeric"]'' = Inr (JArr [JStr ''numeric''])\<close>
    by code_simp
  have accepted: \<open>parseOptions (Some (JBool True)) (Some (JStr ''{"id":"numeric","name":null}''))
       = Inr (True, Some ''{"id":"numeric","name":null}'')\<close>
    by code_simp
  have registry: "categorySortFunctions ''numeric'' = Some numericSort"
    by (simp add: categorySortFunctions_def)
  from parseOptions_accepts_only_custom_order_maps
         [where raw = "''numeric''" and recursive = True]
       parseOptions_accepts_only_custom_order_maps
         [where raw = \<open>''["numeric"]''\<close> and recursive = True and v = "JArr [JStr ''numeric'']"]
       parseOptions_accepts_only_custom_order_maps
         [where raw = \<open>''{"id":"numeric","name":null}''\<close> and recursive = True
            and accepted = \<open>(True, Some ''{"id":"numeric","name":null}'')\<close>]
       fails array accepted registry
  show ?thesis
    by simp
qed

text \<open>
  The specification's own example fails: the policy name \<open>lexical\<close> is not
  JSON, and \<^verbatim>\<open>parseOptions\<close> raises "Failed to parse sort order option as JSON".
\<close>

theorem parseOptions_rejects_lexical_counterexample:
  "parseOptions (Some (JBool False)) (Some (JStr ''lexical''))
   = Inl Failed_to_parse_sort_order_option_as_JSON"
  by code_simp

text \<open>
  So the parser that \<^verbatim>\<open>createParser\<close> builds fails on every document when the option
  is a policy name, and sorts with \<open>lexicalSort\<close> when the option is absent.
\<close>

lemma createParser_parse_policy_name:
  "JSON_parse raw = Inl SyntaxError \<Longrightarrow>
     createParser_parse ast (Some (JBool recursive)) (Some (JStr raw))
       = Inl Failed_to_parse_sort_order_option_as_JSON"
  by (simp add: createParser_parse_def parseOptions_def)

lemma createParser_parse_default:
  "createParser_parse ast (Some (JBool recursive)) None = sortAst ast recursive lexicalSort"
proof -
  have "JSON_parse ''lexical'' = Inl SyntaxError"
    by code_simp
  moreover have "categorySortFunctions ''lexical'' = Some lexicalSort"
    by (simp add: categorySortFunctions_def)
  ultimately show ?thesis
    by (simp add: createParser_parse_def parseOptions_def applyDefaultOptions_def
          createSortCompareFunction_def)
qed

section \<open>The sorter of sort.ts with the recursive flag off\<close>

text \<open>
  With \<^verbatim>\<open>recursive\<close> off, \<^verbatim>\<open>sortAst\<close> returns the properties of the top-level object in
  another order and nothing else: each property is the one that was given, with the
  value it had. (This is the behaviour that \<^verbatim>\<open>processJson\<close> lacks, see C4.)
\<close>

lemma sortAst_flat_permutes_properties:
  assumes "sortAst (ObjectExpression properties) False sortCompareFunction = Inr sortedNode"
  shows "\<exists>sortedProperties. sortedNode = ObjectExpression sortedProperties
           \<and> mset sortedProperties = mset properties"
proof -
  from assms obtain sortedProperties
    where sorted: "sort_properties sortCompareFunction properties = Inr sortedProperties"
      and node: "sortedNode = ObjectExpression sortedProperties"
    by (cases "sort_properties sortCompareFunction properties")
       (auto simp: sortAst.simps split: if_splits)
  from sorted have "mset sortedProperties = mset properties"
    by (auto simp: sort_properties_def mset_array_sort split: if_splits)
  with node show ?thesis by blast
qed

end
